theory Spec2Isabelle
  imports Complex_Main "HOL-Library.Log_Nat"
begin

section \<open>Numbers\<close>

text \<open>
  The coordinates, sizes and surface dimensions of \<open>Viewport.js\<close> are JavaScript
  numbers, that is IEEE 754 binary64 values, and every arithmetic operation of the
  source returns its exact result rounded to binary64. The development has two
  levels. The definitions of this section and of the next two compute over \<open>real\<close>
  with exact arithmetic: they give the expressions that each method evaluates, without
  the rounding. The section on double precision then gives the three geometric methods
  with the rounding of every result made explicit. Non-finite arguments are outside
  both levels.

  Division is the one operation of the file that leaves the finite numbers on finite
  arguments: a zero divisor gives \<open>Infinity\<close>, \<open>-Infinity\<close> or \<open>NaN\<close>. These three
  are kept apart from every real as the single value \<open>NonFinite\<close>.
\<close>

datatype number = Finite real | NonFinite

definition js_div :: "real \<Rightarrow> real \<Rightarrow> number" where
  "js_div a b = (if b = 0 then NonFinite else Finite (a / b))"

section \<open>The vectors of the three.js library\<close>

text \<open>
  \<open>THREE.Vector2\<close> and \<open>THREE.Vector4\<close> belong to the three.js library. The parts the
  viewport uses are the constructors, the component fields, \<open>toArray\<close> and
  \<open>fromArray\<close>. The components \<open>x\<close>, \<open>y\<close>, \<open>z\<close>, \<open>w\<close> are named \<open>x2\<close>, \<open>y2\<close> for a
  two-component vector and \<open>x4\<close>, \<open>y4\<close>, \<open>z4\<close>, \<open>w4\<close> for a four-component one.
\<close>

record 'a Vector2 =
  x2 :: 'a
  y2 :: 'a

record Vector4 =
  x4 :: real
  y4 :: real
  z4 :: real
  w4 :: real

text \<open>
  \<open>new THREE.Vector4()\<close>: three.js defaults the first three components to 0 and the
  fourth, the homogeneous coordinate, to 1.
\<close>

definition new_Vector4 :: Vector4 where
  "new_Vector4 = \<lparr>x4 = 0, y4 = 0, z4 = 0, w4 = 1\<rparr>"

text \<open>\<open>v.toArray()\<close> is the array \<open>[v.x, v.y]\<close>.\<close>

definition toArray :: "real Vector2 \<Rightarrow> real list" where
  "toArray v = [x2 v, y2 v]"

text \<open>
  \<open>v.fromArray(a)\<close> assigns \<open>v.x = a[0]\<close> and \<open>v.y = a[1]\<close>. On an array with fewer
  than two elements JavaScript reads \<open>undefined\<close> into a component; no vector of
  numbers results, which is the value \<open>None\<close> here.
\<close>

fun fromArray :: "real list \<Rightarrow> real Vector2 option" where
  "fromArray (a # b # rest) = Some \<lparr>x2 = a, y2 = b\<rparr>"
| "fromArray _ = None"

section \<open>The viewport\<close>

text \<open>
  The fields of a \<open>Viewport\<close> object. The field \<open>size\<close> is named \<open>size'\<close>. The
  fields \<open>mode\<close> and \<open>anchor\<close> hold plain numbers in the source, compared with
  \<open>===\<close> against the constants below, so they are integers here and may hold a
  value that is none of the constants.
\<close>

record Viewport =
  offset :: "real Vector2"
  size' :: "real Vector2"
  mode :: int
  anchor :: int
  viewport :: Vector4

definition RELATIVE :: int where "RELATIVE = 200"
definition ABSOLUTE :: int where "ABSOLUTE = 201"
definition TOP_LEFT :: int where "TOP_LEFT = 301"
definition TOP_RIGHT :: int where "TOP_RIGHT = 302"
definition BOTTOM_LEFT :: int where "BOTTOM_LEFT = 303"
definition BOTTOM_RIGHT :: int where "BOTTOM_RIGHT = 304"

text \<open>
  The constructor \<open>Viewport(mode)\<close>. An omitted argument is \<open>undefined\<close> in
  JavaScript, \<open>None\<close> here.
\<close>

definition new_Viewport :: "int option \<Rightarrow> Viewport" where
  "new_Viewport m =
     \<lparr>offset = \<lparr>x2 = 0, y2 = 0\<rparr>,
      size' = \<lparr>x2 = 1, y2 = 1\<rparr>,
      mode = (case m of Some k \<Rightarrow> k | None \<Rightarrow> RELATIVE),
      anchor = TOP_LEFT,
      viewport = new_Vector4\<rparr>"

text \<open>\<open>update\<close>: the body of the method is a comment.\<close>

definition update :: "Viewport \<Rightarrow> Viewport" where
  "update this = this"

definition getAspectRatio :: "Viewport \<Rightarrow> number" where
  "getAspectRatio this = js_div (x2 (size' this)) (y2 (size' this))"

subsection \<open>The collaborators: canvas, mouse, renderer\<close>

record canvas =
  width :: real
  height :: real

record mouse =
  position :: "real Vector2"

text \<open>
  The renderer is the external backend. Of its state the model keeps the drawing
  surface and the rectangles last given to \<open>setViewport\<close> and \<open>setScissor\<close>.
\<close>

record renderer =
  domElement :: canvas
  current_viewport :: Vector4
  current_scissor :: Vector4

definition setViewport :: "renderer \<Rightarrow> real \<Rightarrow> real \<Rightarrow> real \<Rightarrow> real \<Rightarrow> renderer" where
  "setViewport r a b c d = r\<lparr>current_viewport := \<lparr>x4 = a, y4 = b, z4 = c, w4 = d\<rparr>\<rparr>"

definition setScissor :: "renderer \<Rightarrow> real \<Rightarrow> real \<Rightarrow> real \<Rightarrow> real \<Rightarrow> renderer" where
  "setScissor r a b c d = r\<lparr>current_scissor := \<lparr>x4 = a, y4 = b, z4 = c, w4 = d\<rparr>\<rparr>"

subsection \<open>isInside\<close>

text \<open>
  In the methods below \<open>W\<close> and \<open>H\<close> are the source's locals \<open>width\<close> and
  \<open>height\<close>, and \<open>off\<close> and \<open>vp\<close> its locals \<open>offset\<close> and \<open>viewport\<close>.
\<close>

definition isInside :: "Viewport \<Rightarrow> canvas \<Rightarrow> mouse \<Rightarrow> bool" where
  "isInside this cv ms =
     (let W = width cv;
          H = height cv;
          off = (if mode this = RELATIVE
                 then \<lparr>x2 = x2 (offset this) * W, y2 = y2 (offset this) * H\<rparr>
                 else offset this);
          vp = (if mode this = RELATIVE
                then \<lparr>x2 = x2 (size' this) * W, y2 = y2 (size' this) * H\<rparr>
                else size' this)
      in if anchor this = TOP_LEFT then
           x2 (position ms) > x2 off \<and>
           x2 (position ms) < x2 off + x2 vp \<and>
           y2 (position ms) > y2 off \<and>
           y2 (position ms) < y2 off + y2 vp
         else if anchor this = TOP_RIGHT then
           x2 (position ms) > W - x2 vp - x2 off \<and>
           x2 (position ms) < W - x2 off \<and>
           y2 (position ms) > y2 off \<and>
           y2 (position ms) < y2 off + y2 vp
         else if anchor this = BOTTOM_LEFT then
           x2 (position ms) > x2 off \<and>
           x2 (position ms) < x2 off + x2 vp \<and>
           y2 (position ms) > H - y2 off - y2 vp \<and>
           y2 (position ms) < H - y2 off
         else
           x2 (position ms) > W - x2 vp - x2 off \<and>
           x2 (position ms) < W - x2 off \<and>
           y2 (position ms) > H - y2 off - y2 vp \<and>
           y2 (position ms) < H - y2 off)"

subsection \<open>enable\<close>

definition enable :: "Viewport \<Rightarrow> renderer \<Rightarrow> renderer" where
  "enable this r =
     (let W = width (domElement r);
          H = height (domElement r);
          off = (if mode this = RELATIVE
                 then \<lparr>x2 = x2 (offset this) * W, y2 = y2 (offset this) * H\<rparr>
                 else offset this);
          vp = (if mode this = RELATIVE
                then \<lparr>x2 = x2 (size' this) * W, y2 = y2 (size' this) * H\<rparr>
                else size' this)
      in if anchor this = BOTTOM_LEFT then
           setScissor (setViewport r (x2 off) (y2 off) (x2 vp) (y2 vp))
             (x2 off) (y2 off) (x2 vp) (y2 vp)
         else if anchor this = BOTTOM_RIGHT then
           (let x = W - x2 vp - x2 off
            in setScissor (setViewport r x (y2 off) (x2 vp) (y2 vp))
                 x (y2 off) (x2 vp) (y2 vp))
         else if anchor this = TOP_LEFT then
           (let y = H - y2 vp - y2 off
            in setScissor (setViewport r (x2 off) y (x2 vp) (y2 vp))
                 (x2 off) y (x2 vp) (y2 vp))
         else
           (let x = W - x2 vp - x2 off;
                y = H - y2 vp - y2 off
            in setScissor (setViewport r x y (x2 vp) (y2 vp))
                 x y (x2 vp) (y2 vp)))"

subsection \<open>Serialization\<close>

text \<open>The object literal that \<open>toJSON\<close> builds and \<open>fromJSON\<close> reads.\<close>

record ViewportData =
  data_offset :: "real list"
  data_size :: "real list"
  data_mode :: int
  data_anchor :: int

definition toJSON :: "Viewport \<Rightarrow> ViewportData" where
  "toJSON this =
     \<lparr>data_offset = toArray (offset this),
      data_size = toArray (size' this),
      data_mode = mode this,
      data_anchor = anchor this\<rparr>"

definition fromJSON :: "Viewport \<Rightarrow> ViewportData \<Rightarrow> Viewport option" where
  "fromJSON this d =
     (case fromArray (data_offset d) of
        None \<Rightarrow> None
      | Some off \<Rightarrow>
          (case fromArray (data_size d) of
             None \<Rightarrow> None
           | Some sz \<Rightarrow>
               Some (this\<lparr>offset := off, size' := sz,
                          mode := data_mode d, anchor := data_anchor d\<rparr>)))"

subsection \<open>The effective offset and size of the specification\<close>

text \<open>
  The specification describes the first step of \<open>isInside\<close>, \<open>getNormalized\<close> and
  \<open>enable\<close> as one shared computation: in RELATIVE mode offset and size are
  multiplied component-wise by the surface dimensions, otherwise they are used as they
  are. The source has no such function; it repeats the step in each method. The two
  definitions below follow the specification, and the theorems relate the methods above
  to them.
\<close>

definition effectiveOffset :: "Viewport \<Rightarrow> real \<Rightarrow> real \<Rightarrow> real Vector2" where
  "effectiveOffset this W H =
     (if mode this = RELATIVE
      then \<lparr>x2 = x2 (offset this) * W, y2 = y2 (offset this) * H\<rparr>
      else offset this)"

definition effectiveSize :: "Viewport \<Rightarrow> real \<Rightarrow> real \<Rightarrow> real Vector2" where
  "effectiveSize this W H =
     (if mode this = RELATIVE
      then \<lparr>x2 = x2 (size' this) * W, y2 = y2 (size' this) * H\<rparr>
      else size' this)"

section \<open>Double precision\<close>

subsection \<open>Rounding to binary64\<close>

text \<open>
  A finite binary64 value is an integer multiple \<open>k * 2^q\<close> with \<open>\<bar>k\<bar> < 2^53\<close> and
  \<open>q \<ge> -1074\<close>. The operations \<open>+\<close>, \<open>-\<close>, \<open>*\<close> and \<open>/\<close> of JavaScript return
  the exact result rounded to the nearest such value, a tie going to the even \<open>k\<close>.

  \<open>pow2 q\<close> is \<open>2^q\<close> for an integer \<open>q\<close> of either sign.
\<close>

definition pow2 :: "int \<Rightarrow> real" where
  "pow2 q = (if 0 \<le> q then 2 ^ nat q else 1 / 2 ^ nat (- q))"

text \<open>
  \<open>ilog2 x\<close> is the binary exponent of a positive \<open>x\<close>, the integer \<open>e\<close> with
  \<open>2^e \<le> x < 2^(e+1)\<close> (lemma \<open>ilog2_bounds\<close> below), computed from the bit length
  of the integer part of \<open>x\<close> or of \<open>1 / x\<close>.
\<close>

definition ilog2 :: "real \<Rightarrow> int" where
  "ilog2 x = (if 1 \<le> x then bitlen \<lfloor>x\<rfloor> - 1 else - bitlen (\<lceil>1 / x\<rceil> - 1))"

text \<open>The nearest integer, a tie going to the even one.\<close>

definition round_half_even :: "real \<Rightarrow> int" where
  "round_half_even x =
     (let f = \<lfloor>x\<rfloor>;
          d = x - of_int f
      in if d < 1 / 2 then f
         else if 1 / 2 < d then f + 1
         else if even f then f else f + 1)"

text \<open>
  \<open>round64\<close>: the quantum \<open>2^q\<close> leaves 53 significant bits, and is never below
  \<open>2^-1074\<close>, which gives the gradual underflow of the format. The exponent is not
  bounded above: a result of magnitude \<open>2^1024\<close> or more, which binary64 turns into
  an infinity, is rounded like any other. Zero has one sign only; the sign of a zero
  can be observed through a division by it alone, whose result is \<open>NonFinite\<close> for
  either sign.
\<close>

definition round64 :: "real \<Rightarrow> real" where
  "round64 x =
     (if x = 0 then 0
      else let q = max (ilog2 \<bar>x\<bar> - 52) (- 1074)
           in of_int (round_half_even (x / pow2 q)) * pow2 q)"





subsection \<open>The three geometric methods with rounding\<close>

text \<open>
  The methods \<open>isInside\<close>, \<open>getNormalized\<close> and \<open>enable\<close> of the source, with
  \<open>rnd\<close> applied to the result of every multiplication, addition, subtraction and
  division, in the order in which the source evaluates them; negation and the
  comparisons are exact. With \<open>round64\<close> for \<open>rnd\<close> these are the methods as they
  run; with \<open>id\<close> they are the methods in exact arithmetic, and \<open>isInside_fl id\<close> and
  \<open>enable_fl id\<close> are the definitions \<open>isInside\<close> and \<open>enable\<close> above (lemma
  \<open>unrounded\<close>).
\<close>

definition isInside_fl :: "(real \<Rightarrow> real) \<Rightarrow> Viewport \<Rightarrow> canvas \<Rightarrow> mouse \<Rightarrow> bool" where
  "isInside_fl rnd this cv ms =
     (let W = width cv;
          H = height cv;
          off = (if mode this = RELATIVE
                 then \<lparr>x2 = rnd (x2 (offset this) * W), y2 = rnd (y2 (offset this) * H)\<rparr>
                 else offset this);
          vp = (if mode this = RELATIVE
                then \<lparr>x2 = rnd (x2 (size' this) * W), y2 = rnd (y2 (size' this) * H)\<rparr>
                else size' this)
      in if anchor this = TOP_LEFT then
           x2 (position ms) > x2 off \<and>
           x2 (position ms) < rnd (x2 off + x2 vp) \<and>
           y2 (position ms) > y2 off \<and>
           y2 (position ms) < rnd (y2 off + y2 vp)
         else if anchor this = TOP_RIGHT then
           x2 (position ms) > rnd (rnd (W - x2 vp) - x2 off) \<and>
           x2 (position ms) < rnd (W - x2 off) \<and>
           y2 (position ms) > y2 off \<and>
           y2 (position ms) < rnd (y2 off + y2 vp)
         else if anchor this = BOTTOM_LEFT then
           x2 (position ms) > x2 off \<and>
           x2 (position ms) < rnd (x2 off + x2 vp) \<and>
           y2 (position ms) > rnd (rnd (H - y2 off) - y2 vp) \<and>
           y2 (position ms) < rnd (H - y2 off)
         else
           x2 (position ms) > rnd (rnd (W - x2 vp) - x2 off) \<and>
           x2 (position ms) < rnd (W - x2 off) \<and>
           y2 (position ms) > rnd (rnd (H - y2 off) - y2 vp) \<and>
           y2 (position ms) < rnd (H - y2 off))"


definition enable_fl :: "(real \<Rightarrow> real) \<Rightarrow> Viewport \<Rightarrow> renderer \<Rightarrow> renderer" where
  "enable_fl rnd this r =
     (let W = width (domElement r);
          H = height (domElement r);
          off = (if mode this = RELATIVE
                 then \<lparr>x2 = rnd (x2 (offset this) * W), y2 = rnd (y2 (offset this) * H)\<rparr>
                 else offset this);
          vp = (if mode this = RELATIVE
                then \<lparr>x2 = rnd (x2 (size' this) * W), y2 = rnd (y2 (size' this) * H)\<rparr>
                else size' this)
      in if anchor this = BOTTOM_LEFT then
           setScissor (setViewport r (x2 off) (y2 off) (x2 vp) (y2 vp))
             (x2 off) (y2 off) (x2 vp) (y2 vp)
         else if anchor this = BOTTOM_RIGHT then
           (let x = rnd (rnd (W - x2 vp) - x2 off)
            in setScissor (setViewport r x (y2 off) (x2 vp) (y2 vp))
                 x (y2 off) (x2 vp) (y2 vp))
         else if anchor this = TOP_LEFT then
           (let y = rnd (rnd (H - y2 vp) - y2 off)
            in setScissor (setViewport r (x2 off) y (x2 vp) (y2 vp))
                 (x2 off) y (x2 vp) (y2 vp))
         else
           (let x = rnd (rnd (W - x2 vp) - x2 off);
                y = rnd (rnd (H - y2 vp) - y2 off)
            in setScissor (setViewport r x y (x2 vp) (y2 vp))
                 x y (x2 vp) (y2 vp)))"

section \<open>Properties\<close>

lemmas anchors = TOP_LEFT_def TOP_RIGHT_def BOTTOM_LEFT_def BOTTOM_RIGHT_def


subsection \<open>The rounding function\<close>

text \<open>
  \<open>ilog2\<close> is the binary exponent, \<open>round64 x\<close> lies within half a quantum of
  \<open>x\<close>, and without rounding the methods of the last section are those of the
  section before.
\<close>

lemma ilog2_bounds:
  assumes "0 < x"
  shows "pow2 (ilog2 x) \<le> x \<and> x < pow2 (ilog2 x + 1)"
proof (cases "1 \<le> x")
  case True
  define n where "n = \<lfloor>x\<rfloor>"
  have n: "0 < n" using True by (simp add: n_def)
  have b: "1 \<le> bitlen n" using n by (simp add: bitlen_alt_def)
  from bitlen_bounds [OF n]
  have lo: "2 ^ nat (bitlen n - 1) \<le> n" and hi: "n < 2 ^ nat (bitlen n)" by simp_all
  have "(2::real) ^ nat (bitlen n - 1) \<le> of_int n"
    using lo by (metis of_int_le_iff of_int_numeral of_int_power)
  also have "\<dots> \<le> x" by (simp add: n_def)
  finally have l: "2 ^ nat (bitlen n - 1) \<le> x" .
  have "n + 1 \<le> 2 ^ nat (bitlen n)" using hi by simp
  then have "(of_int (n + 1) :: real) \<le> 2 ^ nat (bitlen n)"
    by (metis of_int_le_iff of_int_numeral of_int_power)
  moreover have "x < of_int (n + 1)" by (simp add: n_def)
  ultimately have h: "x < 2 ^ nat (bitlen n)" by simp
  show ?thesis
    using True l h b by (simp add: ilog2_def pow2_def n_def)
next
  case False
  define m where "m = \<lceil>1 / x\<rceil> - 1"
  have r: "1 < 1 / x" using assms False by simp
  have m: "0 < m" using r by (simp add: m_def less_ceiling_iff)
  have b: "1 \<le> bitlen m" using m by (simp add: bitlen_alt_def)
  from bitlen_bounds [OF m]
  have lo: "2 ^ nat (bitlen m - 1) \<le> m" and hi: "m < 2 ^ nat (bitlen m)" by simp_all
  have "m + 1 \<le> 2 ^ nat (bitlen m)" using hi by simp
  then have "(of_int (m + 1) :: real) \<le> 2 ^ nat (bitlen m)"
    by (metis of_int_le_iff of_int_numeral of_int_power)
  moreover have "1 / x \<le> of_int (m + 1)" by (simp add: m_def)
  ultimately have "1 / x \<le> 2 ^ nat (bitlen m)" by simp
  then have l: "1 / 2 ^ nat (bitlen m) \<le> x"
    using assms by (simp add: field_simps)
  have "(2::real) ^ nat (bitlen m - 1) \<le> of_int m"
    using lo by (metis of_int_le_iff of_int_numeral of_int_power)
  also have "\<dots> < 1 / x" by (simp add: m_def) linarith
  finally have "2 ^ nat (bitlen m - 1) < 1 / x" .
  then have h: "x < 1 / 2 ^ nat (bitlen m - 1)"
    using assms by (simp add: field_simps)
  have e: "nat (bitlen m - 1) = nat (bitlen m) - 1" by simp
  show ?thesis
  proof (cases "bitlen m = 1")
    case True
    then show ?thesis using False l h by (simp add: ilog2_def pow2_def m_def)
  next
    case neq: False
    then have "1 < bitlen m" using b by simp
    then show ?thesis using False l h
      by (simp add: ilog2_def pow2_def m_def nat_diff_distrib)
  qed
qed

lemma round_half_even_nearest: "\<bar>of_int (round_half_even y) - y\<bar> \<le> 1 / 2"
  unfolding round_half_even_def Let_def
  by (auto simp add: abs_le_iff)

lemma pow2_pos: "0 < pow2 q"
  by (simp add: pow2_def)

lemma round64_nearest:
  assumes "x \<noteq> 0"
  shows "\<bar>round64 x - x\<bar> \<le> pow2 (max (ilog2 \<bar>x\<bar> - 52) (- 1074)) / 2"
proof -
  define q where "q = max (ilog2 \<bar>x\<bar> - 52) (- 1074)"
  define k where "k = round_half_even (x / pow2 q)"
  have p: "0 < pow2 q" by (rule pow2_pos)
  have val: "round64 x = of_int k * pow2 q"
    using assms by (simp add: round64_def q_def k_def Let_def)
  have near: "\<bar>of_int k - x / pow2 q\<bar> \<le> 1 / 2"
    unfolding k_def by (rule round_half_even_nearest)
  have "of_int k * pow2 q - x = (of_int k - x / pow2 q) * pow2 q"
    using p by (simp add: left_diff_distrib)
  then have "\<bar>of_int k * pow2 q - x\<bar> = \<bar>of_int k - x / pow2 q\<bar> * pow2 q"
    using p by (simp only: abs_mult abs_of_pos)
  also have "\<dots> \<le> 1 / 2 * pow2 q"
    using near p by (rule mult_right_mono [OF _ less_imp_le])
  finally show ?thesis
    unfolding val q_def by simp
qed

lemma unrounded:
  "isInside_fl id this cv ms = isInside this cv ms"
  "enable_fl id this r = enable this r"
  by (simp_all add: isInside_fl_def isInside_def enable_fl_def enable_def Let_def)


subsection \<open>enable\<close>

text \<open>
  C1. For every viewport state and surface size, \<open>enable\<close> leaves the same pixel
  rectangle in the backend's viewport and scissor. With the effective offset
  \<open>(ox, oy)\<close> and size \<open>(sx, sy)\<close>, the rectangle is \<open>(ox, oy, sx, sy)\<close> for
  BOTTOM_LEFT, \<open>(W - sx - ox, oy, sx, sy)\<close> for BOTTOM_RIGHT,
  \<open>(ox, H - sy - oy, sx, sy)\<close> for TOP_LEFT and \<open>(W - sx - ox, H - sy - oy, sx, sy)\<close>
  for TOP_RIGHT. On a surface of 1000 by 500 with offset (10,10), size (100,50) and
  ABSOLUTE mode the four rectangles are (10,10,100,50), (890,10,100,50),
  (10,440,100,50) and (890,440,100,50).
\<close>

theorem enable_rectangle:
  "(let W = width (domElement r);
        H = height (domElement r);
        ox = x2 (effectiveOffset this W H);
        oy = y2 (effectiveOffset this W H);
        sx = x2 (effectiveSize this W H);
        sy = y2 (effectiveSize this W H);
        out = (\<lambda>a. enable (this\<lparr>anchor := a\<rparr>) r);
        rect = (\<lambda>a b c d. \<lparr>x4 = a, y4 = b, z4 = c, w4 = d\<rparr>)
    in current_viewport (out BOTTOM_LEFT) = rect ox oy sx sy
     \<and> current_scissor (out BOTTOM_LEFT) = rect ox oy sx sy
     \<and> current_viewport (out BOTTOM_RIGHT) = rect (W - sx - ox) oy sx sy
     \<and> current_scissor (out BOTTOM_RIGHT) = rect (W - sx - ox) oy sx sy
     \<and> current_viewport (out TOP_LEFT) = rect ox (H - sy - oy) sx sy
     \<and> current_scissor (out TOP_LEFT) = rect ox (H - sy - oy) sx sy
     \<and> current_viewport (out TOP_RIGHT) = rect (W - sx - ox) (H - sy - oy) sx sy
     \<and> current_scissor (out TOP_RIGHT) = rect (W - sx - ox) (H - sy - oy) sx sy)
   \<and> (let out = (\<lambda>a. enable
               \<lparr>offset = \<lparr>x2 = 10, y2 = 10\<rparr>, size' = \<lparr>x2 = 100, y2 = 50\<rparr>,
                mode = ABSOLUTE, anchor = a, viewport = q\<rparr>
               (r\<lparr>domElement := \<lparr>width = 1000, height = 500\<rparr>\<rparr>));
           rect = (\<lambda>a b c d. \<lparr>x4 = a, y4 = b, z4 = c, w4 = d\<rparr>)
       in current_viewport (out BOTTOM_LEFT) = rect 10 10 100 50
        \<and> current_scissor (out BOTTOM_LEFT) = rect 10 10 100 50
        \<and> current_viewport (out BOTTOM_RIGHT) = rect 890 10 100 50
        \<and> current_scissor (out BOTTOM_RIGHT) = rect 890 10 100 50
        \<and> current_viewport (out TOP_LEFT) = rect 10 440 100 50
        \<and> current_scissor (out TOP_LEFT) = rect 10 440 100 50
        \<and> current_viewport (out TOP_RIGHT) = rect 890 440 100 50
        \<and> current_scissor (out TOP_RIGHT) = rect 890 440 100 50)"
  by (simp add: enable_def effectiveOffset_def effectiveSize_def setViewport_def
      setScissor_def anchors RELATIVE_def ABSOLUTE_def Let_def)

subsection \<open>isInside\<close>

text \<open>
  C2. \<open>isInside\<close> is an open-rectangle test with four strict inequalities on the
  effective offset \<open>(ox, oy)\<close> and size \<open>(sx, sy)\<close>: TOP_LEFT tests
  \<open>ox < px < ox + sx\<close> and \<open>oy < py < oy + sy\<close>; TOP_RIGHT tests
  \<open>W - sx - ox < px < W - ox\<close> with the same vertical test; BOTTOM_LEFT tests
  \<open>H - oy - sy < py < H - oy\<close> with the horizontal test of TOP_LEFT; BOTTOM_RIGHT
  flips both. A point on a boundary is outside: in RELATIVE mode with anchor TOP_LEFT,
  offset (0,0), size (1,1) and a surface of 800 by 600, every pointer strictly inside
  (1,1)-(799,599) is inside, and the pointers (0,0) and (800,600) are not.
\<close>

theorem isInside_open_rectangle:
  "(let W = width cv;
        H = height cv;
        ox = x2 (effectiveOffset this W H);
        oy = y2 (effectiveOffset this W H);
        sx = x2 (effectiveSize this W H);
        sy = y2 (effectiveSize this W H);
        px = x2 (position ms);
        py = y2 (position ms);
        inside = (\<lambda>a. isInside (this\<lparr>anchor := a\<rparr>) cv ms)
    in inside TOP_LEFT = (ox < px \<and> px < ox + sx \<and> oy < py \<and> py < oy + sy)
     \<and> inside TOP_RIGHT = (W - sx - ox < px \<and> px < W - ox \<and> oy < py \<and> py < oy + sy)
     \<and> inside BOTTOM_LEFT = (ox < px \<and> px < ox + sx \<and> H - oy - sy < py \<and> py < H - oy)
     \<and> inside BOTTOM_RIGHT =
         (W - sx - ox < px \<and> px < W - ox \<and> H - oy - sy < py \<and> py < H - oy))
   \<and> (let full = \<lparr>offset = \<lparr>x2 = 0, y2 = 0\<rparr>, size' = \<lparr>x2 = 1, y2 = 1\<rparr>,
                   mode = RELATIVE, anchor = TOP_LEFT, viewport = q\<rparr>;
           surface = \<lparr>width = 800, height = 600\<rparr>
       in (\<forall>px py. 1 < px \<and> px < 799 \<and> 1 < py \<and> py < 599 \<longrightarrow>
              isInside full surface \<lparr>position = \<lparr>x2 = px, y2 = py\<rparr>\<rparr>)
        \<and> \<not> isInside full surface \<lparr>position = \<lparr>x2 = 0, y2 = 0\<rparr>\<rparr>
        \<and> \<not> isInside full surface \<lparr>position = \<lparr>x2 = 800, y2 = 600\<rparr>\<rparr>)"
  by (simp add: isInside_def effectiveOffset_def effectiveSize_def anchors Let_def)

theorem isInside_open_rectangle_witness:
  "(1::real) < 400 \<and> (400::real) < 799 \<and> (1::real) < 300 \<and> (300::real) < 599
   \<and> isInside \<lparr>offset = \<lparr>x2 = 0, y2 = 0\<rparr>, size' = \<lparr>x2 = 1, y2 = 1\<rparr>,
               mode = RELATIVE, anchor = TOP_LEFT, viewport = new_Vector4\<rparr>
        \<lparr>width = 800, height = 600\<rparr> \<lparr>position = \<lparr>x2 = 400, y2 = 300\<rparr>\<rparr>"
proof -
  have range: "(1::real) < 400 \<and> (400::real) < 799 \<and> (1::real) < 300 \<and> (300::real) < 599"
    by simp
  note example = isInside_open_rectangle
    [where q = new_Vector4, THEN conjunct2, unfolded Let_def, THEN conjunct1]
  from range example show ?thesis by blast
qed

subsection \<open>getNormalized\<close>










subsection \<open>Serialization round trip\<close>

text \<open>
  C4. For every viewport state \<open>v\<close> and every viewport \<open>w\<close>, in particular a fresh
  one, \<open>w.fromJSON(v.toJSON())\<close> makes the offset, size, mode and anchor of \<open>w\<close>
  equal to those of \<open>v\<close> and leaves the viewport field of \<open>w\<close> as it was. The record
  that \<open>toJSON\<close> produces has the four fields offset, size, mode and anchor and does
  not depend on the viewport rectangle, and \<open>fromJSON\<close> never writes the viewport
  field.
\<close>

theorem toJSON_fromJSON_roundtrip:
  "toJSON v = \<lparr>data_offset = [x2 (offset v), y2 (offset v)],
               data_size = [x2 (size' v), y2 (size' v)],
               data_mode = mode v, data_anchor = anchor v\<rparr>
   \<and> toJSON (v\<lparr>viewport := q\<rparr>) = toJSON v
   \<and> (\<exists>w'. fromJSON w (toJSON v) = Some w'
         \<and> offset w' = offset v \<and> size' w' = size' v
         \<and> mode w' = mode v \<and> anchor w' = anchor v
         \<and> viewport w' = viewport w)
   \<and> (\<exists>w'. fromJSON (new_Viewport m) (toJSON v) = Some w'
         \<and> offset w' = offset v \<and> size' w' = size' v
         \<and> mode w' = mode v \<and> anchor w' = anchor v
         \<and> viewport w' = viewport (new_Viewport m))
   \<and> (\<forall>u. fromJSON w d = Some u \<longrightarrow> viewport u = viewport w)"
  by (auto simp add: toJSON_def fromJSON_def toArray_def split: option.splits)

theorem toJSON_fromJSON_roundtrip_witness:
  "fromJSON (new_Viewport None)
     \<lparr>data_offset = [10, 20], data_size = [30, 40],
      data_mode = ABSOLUTE, data_anchor = BOTTOM_RIGHT\<rparr>
   = Some \<lparr>offset = \<lparr>x2 = 10, y2 = 20\<rparr>, size' = \<lparr>x2 = 30, y2 = 40\<rparr>,
           mode = ABSOLUTE, anchor = BOTTOM_RIGHT, viewport = new_Vector4\<rparr>
   \<and> viewport \<lparr>offset = \<lparr>x2 = 10, y2 = 20\<rparr>, size' = \<lparr>x2 = 30, y2 = 40\<rparr>,
           mode = ABSOLUTE, anchor = BOTTOM_RIGHT, viewport = new_Vector4\<rparr>
     = viewport (new_Viewport None)"
proof -
  have run: "fromJSON (new_Viewport None)
       \<lparr>data_offset = [10, 20], data_size = [30, 40],
        data_mode = ABSOLUTE, data_anchor = BOTTOM_RIGHT\<rparr>
     = Some \<lparr>offset = \<lparr>x2 = 10, y2 = 20\<rparr>, size' = \<lparr>x2 = 30, y2 = 40\<rparr>,
             mode = ABSOLUTE, anchor = BOTTOM_RIGHT, viewport = new_Vector4\<rparr>"
    by (simp add: fromJSON_def new_Viewport_def)
  note frame = toJSON_fromJSON_roundtrip
    [where w = "new_Viewport None"
       and d = "\<lparr>data_offset = [10, 20], data_size = [30, 40],
                 data_mode = ABSOLUTE, data_anchor = BOTTOM_RIGHT\<rparr>",
     THEN conjunct2, THEN conjunct2, THEN conjunct2, THEN conjunct2, rule_format, OF run]
  from run frame show ?thesis by (rule conjI)
qed

subsection \<open>update\<close>

text \<open>
  C5. For every viewport state, \<open>update\<close> changes nothing: offset, size, mode, anchor
  and the viewport field hold the values they held before the call.
\<close>

theorem update_is_noop:
  "update this = this
   \<and> offset (update this) = offset this
   \<and> size' (update this) = size' this
   \<and> mode (update this) = mode this
   \<and> anchor (update this) = anchor this
   \<and> viewport (update this) = viewport this"
  by (simp add: update_def)

subsection \<open>Construction\<close>

text \<open>
  C6, as stated: a viewport constructed without a mode has mode RELATIVE, and every
  construction starts with offset (0,0), size (1,1), anchor TOP_LEFT and viewport
  (0,0,0,0). The last part fails: the field is \<open>new THREE.Vector4()\<close>, whose fourth
  component is 1.
\<close>

theorem new_Viewport_viewport_counterexample:
  "viewport (new_Viewport None) \<noteq> \<lparr>x4 = 0, y4 = 0, z4 = 0, w4 = 0\<rparr>"
  by (simp add: new_Viewport_def new_Vector4_def)

text \<open>
  C6, amended: a viewport constructed without a mode has mode RELATIVE, one
  constructed with a mode has that mode, and every construction starts with offset
  (0,0), size (1,1), anchor TOP_LEFT and viewport (0,0,0,1).
\<close>

theorem new_Viewport_initial_state:
  "mode (new_Viewport None) = RELATIVE
   \<and> mode (new_Viewport (Some k)) = k
   \<and> offset (new_Viewport m) = \<lparr>x2 = 0, y2 = 0\<rparr>
   \<and> size' (new_Viewport m) = \<lparr>x2 = 1, y2 = 1\<rparr>
   \<and> anchor (new_Viewport m) = TOP_LEFT
   \<and> viewport (new_Viewport m) = \<lparr>x4 = 0, y4 = 0, z4 = 0, w4 = 1\<rparr>"
  by (simp add: new_Viewport_def new_Vector4_def)

subsection \<open>getAspectRatio\<close>

text \<open>
  C7. For every viewport state, \<open>getAspectRatio\<close> returns \<open>size.x / size.y\<close>, the
  quotient as JavaScript computes it, and depends on the size field only: changing
  offset, mode, anchor or the viewport field does not change it, and no surface
  dimension is an argument. Size (0.5, 0.25) gives 2, and size (640, 480) in ABSOLUTE
  mode gives 4/3.
\<close>

theorem getAspectRatio_size_only:
  "getAspectRatio this = js_div (x2 (size' this)) (y2 (size' this))
   \<and> getAspectRatio this =
       (if y2 (size' this) = 0 then NonFinite
        else Finite (x2 (size' this) / y2 (size' this)))
   \<and> getAspectRatio (this\<lparr>offset := off, mode := m, anchor := a, viewport := q\<rparr>)
       = getAspectRatio this
   \<and> getAspectRatio (this\<lparr>size' := \<lparr>x2 = 0.5, y2 = 0.25\<rparr>\<rparr>) = Finite 2
   \<and> getAspectRatio (this\<lparr>size' := \<lparr>x2 = 640, y2 = 480\<rparr>, mode := ABSOLUTE\<rparr>)
       = Finite (4 / 3)"
  by (simp add: getAspectRatio_def js_div_def)

subsection \<open>The enumeration constants\<close>

text \<open>
  C8. The constants are RELATIVE = 200, ABSOLUTE = 201, TOP_LEFT = 301,
  TOP_RIGHT = 302, BOTTOM_LEFT = 303 and BOTTOM_RIGHT = 304, and for every viewport
  state \<open>toJSON\<close> emits the stored mode and anchor, hence these numbers, in its mode
  and anchor fields.
\<close>

theorem enumeration_values:
  "RELATIVE = 200 \<and> ABSOLUTE = 201
   \<and> TOP_LEFT = 301 \<and> TOP_RIGHT = 302 \<and> BOTTOM_LEFT = 303 \<and> BOTTOM_RIGHT = 304
   \<and> data_mode (toJSON this) = mode this
   \<and> data_anchor (toJSON this) = anchor this
   \<and> data_mode (toJSON (this\<lparr>mode := RELATIVE\<rparr>)) = 200
   \<and> data_mode (toJSON (this\<lparr>mode := ABSOLUTE\<rparr>)) = 201
   \<and> data_anchor (toJSON (this\<lparr>anchor := TOP_LEFT\<rparr>)) = 301
   \<and> data_anchor (toJSON (this\<lparr>anchor := TOP_RIGHT\<rparr>)) = 302
   \<and> data_anchor (toJSON (this\<lparr>anchor := BOTTOM_LEFT\<rparr>)) = 303
   \<and> data_anchor (toJSON (this\<lparr>anchor := BOTTOM_RIGHT\<rparr>)) = 304"
  by (simp add: RELATIVE_def ABSOLUTE_def anchors toJSON_def)

subsection \<open>isInside and enable describe one rectangle\<close>




text \<open>
  The four anchors are all that C9 speaks of. On any other number the two methods
  fall into different last branches, \<open>isInside\<close> into that of BOTTOM_RIGHT and
  \<open>enable\<close> into that of TOP_RIGHT.
\<close>

lemma unlisted_anchor_branches:
  "isInside (this\<lparr>anchor := 0\<rparr>) cv ms = isInside (this\<lparr>anchor := BOTTOM_RIGHT\<rparr>) cv ms
   \<and> enable (this\<lparr>anchor := 0\<rparr>) r = enable (this\<lparr>anchor := TOP_RIGHT\<rparr>) r"
  by (simp add: isInside_def enable_def anchors Let_def)

subsection \<open>Degenerate viewports\<close>

text \<open>
  C10. For every mode and anchor, and for every offset, surface and pointer, if a
  component of the effective size is zero or negative, as with size (0,0) in ABSOLUTE
  mode, \<open>isInside\<close> returns false: the method divides nothing and its result is a
  boolean for every input.
\<close>

theorem isInside_degenerate:
  assumes "x2 (effectiveSize this (width cv) (height cv)) \<le> 0
         \<or> y2 (effectiveSize this (width cv) (height cv)) \<le> 0"
  shows "\<not> isInside this cv ms"
  using assms
  by (auto simp add: isInside_def effectiveSize_def Let_def split: if_splits)

theorem isInside_degenerate_witness:
  "(x2 (effectiveSize
          \<lparr>offset = \<lparr>x2 = 0, y2 = 0\<rparr>, size' = \<lparr>x2 = 0, y2 = 0\<rparr>,
           mode = ABSOLUTE, anchor = TOP_LEFT, viewport = new_Vector4\<rparr>
          (width \<lparr>width = 800, height = 600\<rparr>) (height \<lparr>width = 800, height = 600\<rparr>)) \<le> 0
    \<or> y2 (effectiveSize
          \<lparr>offset = \<lparr>x2 = 0, y2 = 0\<rparr>, size' = \<lparr>x2 = 0, y2 = 0\<rparr>,
           mode = ABSOLUTE, anchor = TOP_LEFT, viewport = new_Vector4\<rparr>
          (width \<lparr>width = 800, height = 600\<rparr>) (height \<lparr>width = 800, height = 600\<rparr>)) \<le> 0)
   \<and> \<not> isInside
          \<lparr>offset = \<lparr>x2 = 0, y2 = 0\<rparr>, size' = \<lparr>x2 = 0, y2 = 0\<rparr>,
           mode = ABSOLUTE, anchor = TOP_LEFT, viewport = new_Vector4\<rparr>
          \<lparr>width = 800, height = 600\<rparr> \<lparr>position = \<lparr>x2 = 0, y2 = 0\<rparr>\<rparr>"
proof -
  have empty: "x2 (effectiveSize
          \<lparr>offset = \<lparr>x2 = 0, y2 = 0\<rparr>, size' = \<lparr>x2 = 0, y2 = 0\<rparr>,
           mode = ABSOLUTE, anchor = TOP_LEFT, viewport = new_Vector4\<rparr>
          (width \<lparr>width = 800, height = 600\<rparr>) (height \<lparr>width = 800, height = 600\<rparr>)) \<le> 0
    \<or> y2 (effectiveSize
          \<lparr>offset = \<lparr>x2 = 0, y2 = 0\<rparr>, size' = \<lparr>x2 = 0, y2 = 0\<rparr>,
           mode = ABSOLUTE, anchor = TOP_LEFT, viewport = new_Vector4\<rparr>
          (width \<lparr>width = 800, height = 600\<rparr>) (height \<lparr>width = 800, height = 600\<rparr>)) \<le> 0"
    by (simp add: effectiveSize_def RELATIVE_def ABSOLUTE_def)
  from empty isInside_degenerate [OF empty] show ?thesis by (rule conjI)
qed

end
